theory Spec2Isabelle
  imports Main
begin

section \<open>Data model\<close>

subsection \<open>Errors\<close>

text \<open>
  Go's \<^verbatim>\<open>error\<close> interface values, one constructor per dynamic type that the
  middleware distinguishes:
  \<^item> \<open>errorString\<close>: \<^verbatim>\<open>errors.New(msg)\<close> and \<^verbatim>\<open>fmt.Errorf\<close> without \<^verbatim>\<open>%w\<close>;
  \<^item> \<open>wrapError\<close>: \<^verbatim>\<open>fmt.Errorf("...: %w", err)\<close>, a message around an inner error;
  \<^item> \<open>FieldErrors\<close>: \<^verbatim>\<open>validate.FieldErrors\<close>, a list of (field, message) pairs;
  \<^item> \<open>RequestError\<close>: \<^verbatim>\<open>*validate.RequestError\<close>, built by
    \<^verbatim>\<open>validate.NewRequestError(err, status)\<close>;
  \<^item> \<open>shutdownError\<close>: the value built by \<^verbatim>\<open>web.NewShutdownError(msg)\<close>.
  The packages \<^verbatim>\<open>business/sys/validate\<close> and \<^verbatim>\<open>foundation/web\<close> that declare the last
  three types are not among the sources; the constructors carry what their callers in
  \<^verbatim>\<open>business/web/mid\<close> pass to them.
\<close>

datatype error =
    errorString string
  | wrapError string error
  | FieldErrors "(string \<times> string) list"
  | RequestError error nat
  | shutdownError string

definition NewRequestError :: "error \<Rightarrow> nat \<Rightarrow> error" where
  "NewRequestError err status = RequestError err status"

definition NewShutdownError :: "string \<Rightarrow> error" where
  "NewShutdownError message = shutdownError message"

definition StatusBadRequest :: nat where "StatusBadRequest = 400"
definition StatusUnauthorized :: nat where "StatusUnauthorized = 401"
definition StatusForbidden :: nat where "StatusForbidden = 403"
definition StatusInternalServerError :: nat where "StatusInternalServerError = 500"

text \<open>\<^verbatim>\<open>http.StatusText\<close> of the standard library, at the codes used here.\<close>

definition StatusText :: "nat \<Rightarrow> string" where
  "StatusText code =
     (if code = 400 then ''Bad Request''
      else if code = 401 then ''Unauthorized''
      else if code = 403 then ''Forbidden''
      else if code = 500 then ''Internal Server Error''
      else [])"

text \<open>
  Modelled from the spec: the rendering of \<^verbatim>\<open>validate.FieldErrors\<close> (absent from the
  sources) as the array of \<^verbatim>\<open>{"field": ..., "error": ...}\<close> objects of section 6 of the
  specification. JSON string escaping is left out.
\<close>

fun fields_json :: "(string \<times> string) list \<Rightarrow> string" where
  "fields_json [] = []"
| "fields_json [(f, e)] =
     ''{\"field\":\"'' @ f @ ''\",\"error\":\"'' @ e @ ''\"}''"
| "fields_json ((f, e) # fe # fs) =
     ''{\"field\":\"'' @ f @ ''\",\"error\":\"'' @ e @ ''\"},'' @ fields_json (fe # fs)"

text \<open>The \<^verbatim>\<open>Error()\<close> method of each error type.\<close>

fun Error_string :: "error \<Rightarrow> string" where
  "Error_string (errorString m) = m"
| "Error_string (wrapError m e) = m"
| "Error_string (FieldErrors fs) = ''['' @ fields_json fs @ '']''"
| "Error_string (RequestError e status) = Error_string e"
| "Error_string (shutdownError m) = m"

text \<open>
  Modelled from the spec: \<^verbatim>\<open>validate.Cause\<close> (absent from the sources) gives the
  originating error of a chain of wrapped errors, the one the Error middleware
  classifies.
\<close>

fun Cause :: "error \<Rightarrow> error" where
  "Cause (wrapError m e) = Cause e"
| "Cause e = e"

text \<open>
  Modelled from the spec: \<^verbatim>\<open>web.IsShutdown\<close> (absent from the sources) tells whether the
  originating error is flagged as shutdown-triggering.
\<close>

fun IsShutdown :: "error \<Rightarrow> bool" where
  "IsShutdown (shutdownError m) = True"
| "IsShutdown (wrapError m e) = IsShutdown e"
| "IsShutdown e = False"

subsection \<open>Claims, context values, requests\<close>

record Claims =
  Subject :: string
  Issuer :: string
  IssuedAt :: int
  ExpiresAt :: int
  Roles :: "string list"

text \<open>
  \<^verbatim>\<open>web.Values\<close>: \<^verbatim>\<open>App.Handle\<close> fills \<open>TraceID\<close> and \<open>Now\<close>, the Logger
  middleware reads \<open>StatusCode\<close>. The context holds a pointer to the value, so the value
  itself lives in the heap of the world below and the context holds its address.
\<close>

record Values =
  TraceID :: string
  Now :: int
  StatusCode :: nat

text \<open>
  A \<^verbatim>\<open>context.Context\<close>, reduced to what this code reads from it: the trace identifier of
  the OpenTelemetry span, the pointer stored under the \<^verbatim>\<open>web\<close> package's key and the
  claims stored under the \<^verbatim>\<open>auth\<close> package's key. \<open>None\<close> means the key is not set.
\<close>

record ctx =
  span_TraceID :: string
  values_key :: "nat option"
  claims_key :: "Claims option"

text \<open>
  An \<^verbatim>\<open>*http.Request\<close>. \<open>Header\<close> maps a canonical header name to its values.
\<close>

record request =
  Method :: string
  URL_Path :: string
  RemoteAddr :: string
  Header :: "string \<Rightarrow> string list option"
  r_Context :: ctx

text \<open>The payload handed to \<^verbatim>\<open>web.Respond\<close>.\<close>

record ErrorResponse =
  Error :: string
  Fields :: string

datatype data = ErrorResponseData ErrorResponse | StatusData string

datatype logval = S string | N nat | I int | E error

datatype level = InfoLevel | ErrorLevel

datatype signal = SIGINT | SIGTERM

text \<open>
  Everything a handler can change: the heap of \<^verbatim>\<open>Values\<close> objects, what has been written
  to the \<^verbatim>\<open>http.ResponseWriter\<close> (one entry per status and body), the error the
  response writer gives back on a write (\<open>None\<close> when the connection is healthy), the
  lines of the zap logger, the signals sent on the application's shutdown channel, and
  the clock.
\<close>

record world =
  heap :: "Values list"
  written :: "(nat \<times> data) list"
  write_err :: "error option"
  logged :: "(level \<times> string \<times> (string \<times> logval) list) list"
  shutdown :: "signal list"
  clock :: int

text \<open>
  \<^verbatim>\<open>web.Handler\<close> is \<^verbatim>\<open>func(ctx, w, r) error\<close>; the response writer \<^verbatim>\<open>w\<close> is part of the
  world. \<open>None\<close> is the \<^verbatim>\<open>nil\<close> error.
\<close>

type_synonym Handler = "ctx \<Rightarrow> request \<Rightarrow> world \<Rightarrow> error option \<times> world"

type_synonym Middleware = "Handler \<Rightarrow> Handler"

text \<open>
  \<^verbatim>\<open>web.App\<close>: the routes registered on the mux, each with its method, its path and the
  function to execute for a request, and the application's middleware. The shutdown
  channel of the struct is the \<open>shutdown\<close> field of the world.
\<close>

record App =
  mux :: "(string \<times> string \<times> (request \<Rightarrow> world \<Rightarrow> world)) list"
  mw :: "Middleware list"

section \<open>Package web\<close>

text \<open>
  Modelled from the spec: \<^verbatim>\<open>wrapMiddleware\<close> (\<^verbatim>\<open>foundation/web/middleware.go\<close>, absent
  from the sources). Section 4.5 and the design notes: the middlewares are applied by
  explicit composition, a fold from the right, so that the first of the list is the
  outermost wrapper.
\<close>

definition wrapMiddleware :: "Middleware list \<Rightarrow> Handler \<Rightarrow> Handler" where
  "wrapMiddleware ms handler = foldr (\<lambda>m h. m h) ms handler"

text \<open>
  Modelled from the spec: \<^verbatim>\<open>web.GetValues\<close> (absent from the sources) reads the
  request-scoped values from the context and fails when they were never stored.
\<close>

definition GetValues :: "ctx \<Rightarrow> error + nat" where
  "GetValues c =
     (case values_key c of
        None \<Rightarrow> Inl (errorString ''web value missing from context'')
      | Some v \<Rightarrow> Inr v)"

text \<open>
  Modelled from the spec: \<^verbatim>\<open>web.Respond\<close> (absent from the sources) records the
  response status code in the request-scoped values, whose absence is the fatal
  missing-context error, and writes one status and body to the response writer. Its
  callers test the error it returns; that error is the response writer's.
\<close>

definition Respond :: "ctx \<Rightarrow> data \<Rightarrow> nat \<Rightarrow> world \<Rightarrow> error option \<times> world" where
  "Respond c d statusCode s =
     (case GetValues c of
        Inl err \<Rightarrow> (Some (NewShutdownError ''web value missing from context''), s)
      | Inr v \<Rightarrow>
          (let s1 = s\<lparr>heap := (heap s)[v := (heap s ! v)\<lparr>StatusCode := statusCode\<rparr>]\<rparr>;
               s2 = s1\<lparr>written := written s1 @ [(statusCode, d)]\<rparr>
           in (write_err s2, s2)))"

text \<open>\<^verbatim>\<open>App.SignalShutdown\<close>: \<^verbatim>\<open>a.shutdown <- syscall.SIGTERM\<close>.\<close>

definition SignalShutdown :: "world \<Rightarrow> world" where
  "SignalShutdown s = s\<lparr>shutdown := shutdown s @ [SIGTERM]\<rparr>"

text \<open>
  The closure \<^verbatim>\<open>h\<close> that \<^verbatim>\<open>App.Handle\<close> registers for a route, over the handler
  composed before it: it takes the context of the request, stores a fresh \<^verbatim>\<open>Values\<close>
  with the span's trace identifier and the current time under the package's key, calls
  the handler, and signals shutdown when the handler returns an error.
\<close>

definition Handle_h :: "Handler \<Rightarrow> request \<Rightarrow> world \<Rightarrow> world" where
  "Handle_h handler r s =
     (let c = r_Context r;
          v = \<lparr>TraceID = span_TraceID c, Now = clock s, StatusCode = 0\<rparr>;
          s1 = s\<lparr>heap := heap s @ [v]\<rparr>;
          c1 = c\<lparr>values_key := Some (length (heap s))\<rparr>
      in case handler c1 r s1 of
           (Some err, s2) \<Rightarrow> SignalShutdown s2
         | (None, s2) \<Rightarrow> s2)"

text \<open>
  \<^verbatim>\<open>App.Handle\<close>: the route's own middleware is wrapped around the handler first, then
  the application's; the closure is registered under the method and the final path.
\<close>

definition Handle :: "App \<Rightarrow> string \<Rightarrow> string \<Rightarrow> string \<Rightarrow> Handler \<Rightarrow> Middleware list \<Rightarrow> App" where
  "Handle a method grp path handler ms =
     (let handler1 = wrapMiddleware ms handler;
          handler2 = wrapMiddleware (mw a) handler1;
          h = Handle_h handler2;
          finalPath = (if grp \<noteq> [] then ''/'' @ grp @ path else path)
      in a\<lparr>mux := mux a @ [(method, finalPath, h)]\<rparr>)"

section \<open>Logging\<close>

text \<open>\<^verbatim>\<open>log.Infow\<close> and \<^verbatim>\<open>log.Errorw\<close> of the zap logger: one line, with its keys and values.\<close>

definition Infow :: "string \<Rightarrow> (string \<times> logval) list \<Rightarrow> world \<Rightarrow> world" where
  "Infow msg kvs s = s\<lparr>logged := logged s @ [(InfoLevel, msg, kvs)]\<rparr>"

definition Errorw :: "string \<Rightarrow> (string \<times> logval) list \<Rightarrow> world \<Rightarrow> world" where
  "Errorw msg kvs s = s\<lparr>logged := logged s @ [(ErrorLevel, msg, kvs)]\<rparr>"

section \<open>Standard library: strings and headers\<close>

text \<open>
  \<^verbatim>\<open>strings.Split(s, sep)\<close> for a separator of one byte, as \<^verbatim>\<open>Authenticate\<close> calls it:
  the pieces of \<open>s\<close> between the separators, one piece more than there are separators;
  the empty string gives one empty piece.
\<close>

fun Split :: "string \<Rightarrow> char \<Rightarrow> string list" where
  "Split [] sep = [[]]"
| "Split (c # cs) sep =
     (if c = sep then [] # Split cs sep
      else (case Split cs sep of [] \<Rightarrow> [[c]] | p # ps \<Rightarrow> (c # p) # ps))"

text \<open>
  \<^verbatim>\<open>strings.ToLower\<close> on the bytes of the string: the letters \<^verbatim>\<open>A\<close> to \<^verbatim>\<open>Z\<close> become
  \<^verbatim>\<open>a\<close> to \<^verbatim>\<open>z\<close>, every other byte stays. Go also maps letters outside ASCII, none of
  them to a letter of \<^verbatim>\<open>bearer\<close>, the only word the result is compared with.
\<close>

definition lower_byte :: "char \<Rightarrow> char" where
  "lower_byte c =
     (if (65::nat) \<le> of_char c \<and> of_char c \<le> (90::nat)
      then char_of (of_char c + (32::nat)) else c)"

definition upper_byte :: "char \<Rightarrow> char" where
  "upper_byte c =
     (if (97::nat) \<le> of_char c \<and> of_char c \<le> (122::nat)
      then char_of (of_char c - (32::nat)) else c)"

definition ToLower :: "string \<Rightarrow> string" where
  "ToLower str = map lower_byte str"

text \<open>
  \<^verbatim>\<open>textproto.CanonicalMIMEHeaderKey\<close> on a header name made of token bytes: the first
  letter and every letter after a hyphen in upper case, the others in lower case.
\<close>

fun canonical :: "bool \<Rightarrow> string \<Rightarrow> string" where
  "canonical upper [] = []"
| "canonical upper (c # cs) =
     (if upper then upper_byte c else lower_byte c) # canonical (c = CHR ''-'') cs"

definition CanonicalMIMEHeaderKey :: "string \<Rightarrow> string" where
  "CanonicalMIMEHeaderKey k = canonical True k"

text \<open>\<^verbatim>\<open>r.Header.Get(key)\<close>: the first value under the canonical name, or the empty string.\<close>

definition Header_Get :: "request \<Rightarrow> string \<Rightarrow> string" where
  "Header_Get r k =
     (case Header r (CanonicalMIMEHeaderKey k) of
        None \<Rightarrow> []
      | Some [] \<Rightarrow> []
      | Some (v # vs) \<Rightarrow> v)"

text \<open>The verb \<^verbatim>\<open>%v\<close> of package \<^verbatim>\<open>fmt\<close> on a slice of strings: \<^verbatim>\<open>[a b c]\<close>.\<close>

fun join_space :: "string list \<Rightarrow> string" where
  "join_space [] = []"
| "join_space [x] = x"
| "join_space (x # y # ys) = x @ '' '' @ join_space (y # ys)"

definition fmt_v :: "string list \<Rightarrow> string" where
  "fmt_v xs = ''['' @ join_space xs @ '']''"

section \<open>Package auth\<close>

text \<open>
  Modelled from the spec: \<^verbatim>\<open>Claims.Authorized\<close> (\<^verbatim>\<open>business/sys/auth\<close>, absent from the
  sources). Section 4.1: a pure predicate, true when some role of the claims is one of
  the required roles. It is written as the search it is: for each role the claims have,
  look for it among the roles wanted.
\<close>

primrec wanted :: "string \<Rightarrow> string list \<Rightarrow> bool" where
  "wanted has [] = False"
| "wanted has (want # ws) = (if has = want then True else wanted has ws)"

primrec any_wanted :: "string list \<Rightarrow> string list \<Rightarrow> bool" where
  "any_wanted [] requiredRoles = False"
| "any_wanted (has # hs) requiredRoles =
     (if wanted has requiredRoles then True else any_wanted hs requiredRoles)"

definition Authorized :: "Claims \<Rightarrow> string list \<Rightarrow> bool" where
  "Authorized c requiredRoles = any_wanted (Roles c) requiredRoles"

text \<open>
  Modelled from the spec: \<^verbatim>\<open>auth.SetClaims\<close> and \<^verbatim>\<open>auth.GetClaims\<close> (absent from the
  sources) attach the claims to the request-scoped context and read them back; reading
  fails when no claims were attached.
\<close>

definition SetClaims :: "ctx \<Rightarrow> Claims \<Rightarrow> ctx" where
  "SetClaims c claims = c\<lparr>claims_key := Some claims\<rparr>"

definition GetClaims :: "ctx \<Rightarrow> error + Claims" where
  "GetClaims c =
     (case claims_key c of
        None \<Rightarrow> Inl (errorString ''claim value missing from context'')
      | Some claims \<Rightarrow> Inr claims)"

text \<open>
  The authenticator \<^verbatim>\<open>*auth.Auth\<close> that \<^verbatim>\<open>Authenticate\<close> receives as its argument; the
  middleware uses its method \<^verbatim>\<open>ValidateToken\<close> only.
\<close>

record Auth =
  ValidateToken :: "string \<Rightarrow> error + Claims"

section \<open>Package mid\<close>

text \<open>\<^verbatim>\<open>mid.Authenticate\<close> (\<^verbatim>\<open>business/web/mid/auth.go\<close>).\<close>

definition Authenticate :: "Auth \<Rightarrow> Middleware" where
  "Authenticate a handler c r s =
     (let authStr = Header_Get r ''authorization'';
          parts = Split authStr CHR '' ''
      in if length parts \<noteq> 2 \<or> ToLower (parts ! 0) \<noteq> ''bearer''
         then (Some (NewRequestError
                 (errorString ''expected authorization header format: bearer <token>'')
                 StatusUnauthorized), s)
         else (case ValidateToken a (parts ! 1) of
                 Inl err \<Rightarrow> (Some (NewRequestError err StatusUnauthorized), s)
               | Inr claims \<Rightarrow> handler (SetClaims c claims) r s))"

text \<open>\<^verbatim>\<open>mid.Authorize\<close> (\<^verbatim>\<open>business/web/mid/auth.go\<close>).\<close>

definition Authorize :: "string list \<Rightarrow> Middleware" where
  "Authorize roles handler c r s =
     (case GetClaims c of
        Inl err \<Rightarrow>
          (Some (NewRequestError
             (errorString ''you are not authorized for that action, no claims'')
             StatusForbidden), s)
      | Inr claims \<Rightarrow>
          if \<not> Authorized claims roles
          then (Some (NewRequestError
                  (errorString (''you are not authorized for that action, claims[''
                     @ fmt_v (Roles claims) @ ''] roles['' @ fmt_v roles @ '']''))
                  StatusForbidden), s)
          else handler c r s)"

text \<open>
  \<^verbatim>\<open>mid.Logger\<close> (\<^verbatim>\<open>business/web/mid/logger.go\<close>). The logger it is built with writes
  to the \<open>logged\<close> field of the world. The values are read through the pointer, so the
  line written after the handler shows the status code the handler left there.
\<close>

definition Logger :: Middleware where
  "Logger handler c r s =
     (case GetValues c of
        Inl err \<Rightarrow> (Some err, s)
      | Inr v \<Rightarrow>
          (let s1 = Infow ''request started''
                      [(''traceid'', S (TraceID (heap s ! v))), (''method'', S (Method r)),
                       (''path'', S (URL_Path r)), (''remoteaddr'', S (RemoteAddr r))] s;
               (err, s2) = handler c r s1;
               s3 = Infow ''request completed''
                      [(''traceid'', S (TraceID (heap s2 ! v))), (''method'', S (Method r)),
                       (''path'', S (URL_Path r)), (''remoteaddr'', S (RemoteAddr r)),
                       (''statuscode'', N (StatusCode (heap s2 ! v))),
                       (''since'', I (clock s2 - Now (heap s2 ! v)))] s2
           in (err, s3)))"

text \<open>
  The \<^verbatim>\<open>switch\<close> of \<^verbatim>\<open>mid.Errors\<close> on the dynamic type of \<^verbatim>\<open>validate.Cause(err)\<close>: the
  response body and the status.
\<close>

definition error_response :: "error \<Rightarrow> ErrorResponse \<times> nat" where
  "error_response err =
     (case Cause err of
        FieldErrors fs \<Rightarrow>
          (\<lparr>Error = ''data validation error'', Fields = Error_string (FieldErrors fs)\<rparr>,
           StatusBadRequest)
      | RequestError e status \<Rightarrow>
          (\<lparr>Error = Error_string (RequestError e status), Fields = []\<rparr>, status)
      | _ \<Rightarrow>
          (\<lparr>Error = StatusText StatusInternalServerError, Fields = []\<rparr>,
           StatusInternalServerError))"

text \<open>
  \<^verbatim>\<open>mid.Errors\<close> (the third part of \<^verbatim>\<open>business/data/tests/tests.go\<close>). The \<^verbatim>\<open>err\<close> that
  \<^verbatim>\<open>web.IsShutdown\<close> tests is the handler's: the one of \<^verbatim>\<open>web.Respond\<close> is local to its
  own \<^verbatim>\<open>if\<close>.
\<close>

definition Errors :: Middleware where
  "Errors handler c r s =
     (case GetValues c of
        Inl err0 \<Rightarrow> (Some (NewShutdownError ''web value missing from context''), s)
      | Inr v \<Rightarrow>
          (case handler c r s of
             (None, s1) \<Rightarrow> (None, s1)
           | (Some err, s1) \<Rightarrow>
               (let s2 = Errorw ''ERROR''
                           [(''traceid'', S (TraceID (heap s1 ! v))), (''ERROR'', E err)] s1;
                    (er, status) = error_response err
                in case Respond c (ErrorResponseData er) status s2 of
                     (Some werr, s3) \<Rightarrow> (Some werr, s3)
                   | (None, s3) \<Rightarrow>
                       if IsShutdown err then (Some err, s3) else (None, s3))))"

section \<open>A marker middleware\<close>

text \<open>
  The middleware of the specification's ordering property: it appends a marker before
  and after calling the next handler. \<open>marker_handler\<close> is a handler that only appends
  its own marker.
\<close>

definition marker :: "string \<Rightarrow> Middleware" where
  "marker name handler c r s =
     (let s1 = Infow (name @ ''-pre'') [] s;
          (err, s2) = handler c r s1;
          s3 = Infow (name @ ''-post'') [] s2
      in (err, s3))"

definition marker_handler :: "string \<Rightarrow> Handler" where
  "marker_handler name c r s = (None, Infow name [] s)"

section \<open>Token codec\<close>

text \<open>
  Modelled from the spec: the Token Codec (\<^verbatim>\<open>business/sys/auth\<close>, absent from the sources;
  the admin tool's \<^verbatim>\<open>GenToken\<close> shows the same steps on the JWT library: method RS256, the
  key-ID in the header, one allowed method on the parser). Sections 3 and 4.2 of the
  specification. The RSA signature is symbolic: a key pair is named by a number, and the
  signature of the private key of pair \<open>n\<close> on a signing input is a value that records
  \<open>n\<close> and the input, so that it verifies under the public key of pair \<open>n\<close> for that
  input and under no other. The token keeps its three parts as they are; the encoding of
  the parts as text is left out.
\<close>

datatype PrivateKey = PrivateKey nat

datatype PublicKey = PublicKey nat

datatype signature = Signature nat "string \<times> string \<times> Claims"

datatype codec_error =
    EncodingError
  | VerificationError
  | UnknownKeyError
  | SignatureError
  | ExpiredTokenError

record token =
  alg :: string
  kid :: string
  payload :: Claims
  trailer :: signature

fun Public :: "PrivateKey \<Rightarrow> PublicKey" where
  "Public (PrivateKey n) = PublicKey n"

fun sign :: "PrivateKey \<Rightarrow> string \<times> string \<times> Claims \<Rightarrow> signature" where
  "sign (PrivateKey n) input = Signature n input"

fun verify :: "PublicKey \<Rightarrow> string \<times> string \<times> Claims \<Rightarrow> signature \<Rightarrow> bool" where
  "verify (PublicKey n) input (Signature m signed) = (n = m \<and> input = signed)"

definition allowed_algorithms :: "string list" where
  "allowed_algorithms = [''RS256'']"

text \<open>Claims are structurally invalid when, for example, the subject is missing.\<close>

definition structurally_valid :: "Claims \<Rightarrow> bool" where
  "structurally_valid claims = (Subject claims \<noteq> [])"

definition encode :: "Claims \<Rightarrow> PrivateKey \<Rightarrow> string \<Rightarrow> codec_error + token" where
  "encode claims signingKey keyID =
     (if \<not> structurally_valid claims then Inl EncodingError
      else Inr \<lparr>alg = ''RS256'', kid = keyID, payload = claims,
                trailer = sign signingKey (''RS256'', keyID, claims)\<rparr>)"

text \<open>\<open>now\<close> is the current time at which the token is decoded.\<close>

definition decode :: "int \<Rightarrow> token \<Rightarrow> (string \<Rightarrow> PublicKey option) \<Rightarrow> codec_error + Claims" where
  "decode now t keyLookup =
     (if alg t \<notin> set allowed_algorithms then Inl VerificationError
      else (case keyLookup (kid t) of
              None \<Rightarrow> Inl UnknownKeyError
            | Some publicKey \<Rightarrow>
                if \<not> verify publicKey (alg t, kid t, payload t) (trailer t)
                then Inl SignatureError
                else if now > ExpiresAt (payload t) then Inl ExpiredTokenError
                else Inr (payload t)))"

text \<open>The key-ID of the key file that the admin tool signs with.\<close>

definition active_kid :: string where
  "active_kid = ''54bb2165-71e1-41a6-af3e-7da4a0e1e2c1''"

text \<open>A map-backed key lookup with the public key of pair 1 under that key-ID.\<close>

definition test_keys :: "string \<Rightarrow> PublicKey option" where
  "test_keys k = (if k = active_kid then Some (PublicKey 1) else None)"

section \<open>The test handler and sample requests\<close>

text \<open>
  \<^verbatim>\<open>Handlers.Test\<close> (\<^verbatim>\<open>handlers/v1/testgrp/testgrp.go\<close>); \<open>n\<close> is the number that
  \<^verbatim>\<open>rand.Intn(100)\<close> draws.
\<close>

definition Test :: "nat \<Rightarrow> Handler" where
  "Test n c r s =
     (if n mod 2 = 0 then (Some (errorString ''untrusted error''), s)
      else Respond c (StatusData ''OK'') 200 s)"

text \<open>
  Sample values for the concrete runs below: a context with neither values nor claims, a
  GET request with the given \<^verbatim>\<open>Authorization\<close> values, a world in which nothing has
  happened yet, the claims that \<^verbatim>\<open>GenToken\<close> of the admin tool signs, and an authenticator
  that accepts one token.
\<close>

definition background :: ctx where
  "background = \<lparr>span_TraceID = ''trace-1'', values_key = None, claims_key = None\<rparr>"

definition get_request :: "string \<Rightarrow> string list \<Rightarrow> request" where
  "get_request path auth =
     \<lparr>Method = ''GET'', URL_Path = path, RemoteAddr = ''10.0.0.7:51000'',
      Header = (\<lambda>k. if k = ''Authorization'' \<and> auth \<noteq> [] then Some auth else None),
      r_Context = background\<rparr>"

definition idle :: world where
  "idle = \<lparr>heap = [], written = [], write_err = None, logged = [], shutdown = [],
            clock = 1000\<rparr>"

definition admin_claims :: Claims where
  "admin_claims =
     \<lparr>Subject = ''user-id-123'', Issuer = ''service project'', IssuedAt = 1000,
      ExpiresAt = 31537000, Roles = [''ADMIN'']\<rparr>"

definition one_token_auth :: Auth where
  "one_token_auth =
     \<lparr>ValidateToken =
        (\<lambda>t. if t = ''good-token'' then Inr admin_claims
             else Inl (errorString ''token is invalid''))\<rparr>"

text \<open>
  A handler that fails with a given error, the context and the world of a request whose
  values \<^verbatim>\<open>App.Handle\<close> has stored at address 0, and the error of a write on a
  connection that the client has closed.
\<close>

definition failing :: "error \<Rightarrow> Handler" where
  "failing err c r s = (Some err, s)"

definition serving_ctx :: ctx where
  "serving_ctx = background\<lparr>values_key := Some 0\<rparr>"

definition serving :: world where
  "serving = idle\<lparr>heap := [\<lparr>TraceID = ''trace-1'', Now = 1000, StatusCode = 0\<rparr>]\<rparr>"

definition broken_pipe :: error where
  "broken_pipe = errorString ''write: broken pipe''"

section \<open>The middleware chain\<close>

lemma wrapMiddleware_Nil: "wrapMiddleware [] h = h"
  by (simp add: wrapMiddleware_def)

lemma wrapMiddleware_Cons: "wrapMiddleware (m # ms) h = m (wrapMiddleware ms h)"
  by (simp add: wrapMiddleware_def)

lemma wrapMiddleware_append:
  "wrapMiddleware (ms1 @ ms2) h = wrapMiddleware ms1 (wrapMiddleware ms2 h)"
  by (simp add: wrapMiddleware_def)

lemma marker_apply:
  "marker name handler c r s =
     (let s1 = Infow (name @ ''-pre'') [] s;
          (err, s2) = handler c r s1;
          s3 = Infow (name @ ''-post'') [] s2
      in (err, s3))"
  by (simp add: marker_def)

lemma marker_chain:
  "wrapMiddleware (map marker names) (marker_handler h) c r s =
     (None, s\<lparr>logged := logged s
        @ map (\<lambda>n. (InfoLevel, n @ ''-pre'', [])) names
        @ [(InfoLevel, h, [])]
        @ rev (map (\<lambda>n. (InfoLevel, n @ ''-post'', [])) names)\<rparr>)"
proof (induction names arbitrary: s)
  case Nil
  show ?case
    by (simp add: wrapMiddleware_Nil marker_handler_def Infow_def)
next
  case (Cons n ns)
  define inner where "inner = wrapMiddleware (map marker ns) (marker_handler h)"
  have IH: "inner c r t =
     (None, t\<lparr>logged := logged t
        @ map (\<lambda>n. (InfoLevel, n @ ''-pre'', [])) ns
        @ [(InfoLevel, h, [])]
        @ rev (map (\<lambda>n. (InfoLevel, n @ ''-post'', [])) ns)\<rparr>)" for t
    unfolding inner_def by (rule Cons.IH)
  have "wrapMiddleware (map marker (n # ns)) (marker_handler h) c r s = marker n inner c r s"
    by (simp add: wrapMiddleware_Cons inner_def)
  also have "\<dots> = (None, s\<lparr>logged := logged s
        @ map (\<lambda>n. (InfoLevel, n @ ''-pre'', [])) (n # ns)
        @ [(InfoLevel, h, [])]
        @ rev (map (\<lambda>n. (InfoLevel, n @ ''-post'', [])) (n # ns))\<rparr>)"
    by (simp add: marker_apply IH Infow_def)
  finally show ?case .
qed

text \<open>
  Claim C1. \<^verbatim>\<open>App.Handle\<close> registers, under the method and the final path, the closure
  over the handler composed from the application's middleware followed by the route's
  middleware. The composition of a list applies its first middleware outermost:
  \<open>[m1, ..., mn]\<close> around \<open>h\<close> is \<open>m1 (m2 (... (mn h)))\<close>, so the application's
  middleware is outside the route's, which is next to the business handler. A chain of
  marker middlewares leaves its pre-markers in the order of the list, then the handler's
  marker, then its post-markers in the reverse order; with \<open>A\<close> and \<open>B\<close> around the
  handler \<open>H\<close> that is A-pre, B-pre, H, B-post, A-post.
\<close>

theorem Handle_middleware_order:
  "mux (Handle a method grp path h ms) =
     mux a @ [(method, (if grp = [] then path else ''/'' @ grp @ path),
               Handle_h (wrapMiddleware (mw a @ ms) h))]
   \<and> wrapMiddleware [] h = h
   \<and> wrapMiddleware (m # rest) h = m (wrapMiddleware rest h)
   \<and> wrapMiddleware (mw a @ ms) h = wrapMiddleware (mw a) (wrapMiddleware ms h)
   \<and> wrapMiddleware (map marker names) (marker_handler name) c r s =
       (None, s\<lparr>logged := logged s
          @ map (\<lambda>n. (InfoLevel, n @ ''-pre'', [])) names
          @ [(InfoLevel, name, [])]
          @ rev (map (\<lambda>n. (InfoLevel, n @ ''-post'', [])) names)\<rparr>)
   \<and> wrapMiddleware [marker ''A'', marker ''B''] (marker_handler ''H'') c r s =
       (None, s\<lparr>logged := logged s @
          [(InfoLevel, ''A-pre'', []), (InfoLevel, ''B-pre'', []), (InfoLevel, ''H'', []),
           (InfoLevel, ''B-post'', []), (InfoLevel, ''A-post'', [])]\<rparr>)"
proof -
  have reg: "mux (Handle a method grp path h ms) =
     mux a @ [(method, (if grp = [] then path else ''/'' @ grp @ path),
               Handle_h (wrapMiddleware (mw a @ ms) h))]"
    by (simp add: Handle_def Let_def wrapMiddleware_append)
  show ?thesis
    using reg wrapMiddleware_Nil wrapMiddleware_Cons wrapMiddleware_append
      marker_chain [of names name c r s]
      marker_chain [of "[''A'', ''B'']" "''H''" c r s]
    by simp
qed

section \<open>Role membership\<close>

lemma wanted_set: "wanted has ws \<longleftrightarrow> has \<in> set ws"
  by (induction ws) auto

lemma any_wanted_set: "any_wanted hs ws \<longleftrightarrow> set hs \<inter> set ws \<noteq> {}"
  by (induction hs) (auto simp: wanted_set)

text \<open>
  Claim C8. For claims \<open>c\<close> and a non-empty list of required roles, \<open>Authorized\<close> is true
  exactly when the roles of \<open>c\<close> and the required roles have a role in common.
\<close>

theorem Authorized_iff_intersection:
  "requiredRoles \<noteq> [] \<Longrightarrow>
     Authorized c requiredRoles \<longleftrightarrow> set (Roles c) \<inter> set requiredRoles \<noteq> {}"
  by (simp add: Authorized_def any_wanted_set)

theorem Authorized_iff_intersection_witness:
  "Authorized admin_claims [''USER'', ''ADMIN'']
   \<and> set (Roles admin_claims) \<inter> set [''USER'', ''ADMIN''] \<noteq> {}
   \<and> \<not> Authorized admin_claims [''USER'']
   \<and> set (Roles admin_claims) \<inter> set [''USER''] = {}"
proof -
  have 1: "[''USER'', ''ADMIN''] \<noteq> []" by simp
  have 2: "[''USER''] \<noteq> []" by simp
  have 3: "set (Roles admin_claims) \<inter> set [''USER'', ''ADMIN''] \<noteq> {}"
    by (simp add: admin_claims_def)
  have 4: "set (Roles admin_claims) \<inter> set [''USER''] = {}"
    by (simp add: admin_claims_def)
  show ?thesis
    using Authorized_iff_intersection [OF 1, of admin_claims]
      Authorized_iff_intersection [OF 2, of admin_claims] 3 4
    by simp
qed


section \<open>Authentication\<close>

lemma Split_not_Nil: "Split str sep \<noteq> []"
  by (induction str) (auto split: list.splits)

lemma Split_no_sep: "sep \<notin> set str \<Longrightarrow> Split str sep = [str]"
  by (induction str) auto

lemma Split_first_sep: "sep \<notin> set a \<Longrightarrow> Split (a @ sep # b) sep = a # Split b sep"
  by (induction a) auto

lemma Split_one_piece: "length (Split str sep) = 1 \<Longrightarrow> sep \<notin> set str"
proof (induction str)
  case Nil
  then show ?case by simp
next
  case (Cons c cs)
  show ?case
  proof (cases "c = sep")
    case True
    with Cons.prems Split_not_Nil [of cs sep] show ?thesis by simp
  next
    case False
    with Cons Split_not_Nil [of cs sep] show ?thesis by (auto split: list.splits)
  qed
qed

lemma Split_two_pieces:
  "length (Split str sep) = 2 \<Longrightarrow>
     \<exists>a b. str = a @ sep # b \<and> sep \<notin> set a \<and> sep \<notin> set b"
proof (induction str)
  case Nil
  then show ?case by simp
next
  case (Cons c cs)
  show ?case
  proof (cases "c = sep")
    case True
    with Cons.prems have "length (Split cs sep) = 1" by simp
    then have "sep \<notin> set cs" by (rule Split_one_piece)
    with True have "c # cs = [] @ sep # cs \<and> sep \<notin> set [] \<and> sep \<notin> set cs" by simp
    then show ?thesis by blast
  next
    case False
    with Cons.prems Split_not_Nil [of cs sep] have "length (Split cs sep) = 2"
      by (auto split: list.splits)
    with Cons.IH obtain a b where "cs = a @ sep # b" "sep \<notin> set a" "sep \<notin> set b"
      by blast
    with False have "c # cs = (c # a) @ sep # b \<and> sep \<notin> set (c # a) \<and> sep \<notin> set b"
      by simp
    then show ?thesis by blast
  qed
qed

lemma bearer_header_iff:
  "(\<exists>scheme token. h = scheme @ '' '' @ token \<and> CHR '' '' \<notin> set scheme
       \<and> CHR '' '' \<notin> set token \<and> ToLower scheme = ''bearer'')
   \<longleftrightarrow> length (Split h CHR '' '') = 2 \<and> ToLower (Split h CHR '' '' ! 0) = ''bearer''"
proof
  assume "\<exists>scheme token. h = scheme @ '' '' @ token \<and> CHR '' '' \<notin> set scheme
       \<and> CHR '' '' \<notin> set token \<and> ToLower scheme = ''bearer''"
  then obtain scheme token where h: "h = scheme @ CHR '' '' # token"
    and ns: "CHR '' '' \<notin> set scheme" and nt: "CHR '' '' \<notin> set token"
    and low: "ToLower scheme = ''bearer''" by auto
  have "Split h CHR '' '' = [scheme, token]"
    using h ns nt by (simp add: Split_first_sep Split_no_sep)
  with low show "length (Split h CHR '' '') = 2 \<and> ToLower (Split h CHR '' '' ! 0) = ''bearer''"
    by simp
next
  assume a: "length (Split h CHR '' '') = 2 \<and> ToLower (Split h CHR '' '' ! 0) = ''bearer''"
  then obtain x y where h: "h = x @ CHR '' '' # y" and nx: "CHR '' '' \<notin> set x"
    and ny: "CHR '' '' \<notin> set y"
    using Split_two_pieces [of h "CHR '' ''"] by blast
  have "Split h CHR '' '' = [x, y]"
    using h nx ny by (simp add: Split_first_sep Split_no_sep)
  with a have "ToLower x = ''bearer''" by simp
  with h nx ny show "\<exists>scheme token. h = scheme @ '' '' @ token \<and> CHR '' '' \<notin> set scheme
       \<and> CHR '' '' \<notin> set token \<and> ToLower scheme = ''bearer''"
    by auto
qed

text \<open>
  Claim C2. When the \<^verbatim>\<open>Authorization\<close> header is not made of exactly two parts separated
  by one space, the first of them equal to \<^verbatim>\<open>bearer\<close> up to the case of its letters (a
  missing header reads as the empty string), \<^verbatim>\<open>Authenticate\<close> returns a request error with
  status 401. The result does not depend on the inner handler and the world is the one
  it was given: the inner handler is not invoked.
\<close>

theorem Authenticate_rejects_malformed_header:
  assumes "\<not> (\<exists>scheme token. Header_Get r ''authorization'' = scheme @ '' '' @ token
              \<and> CHR '' '' \<notin> set scheme \<and> CHR '' '' \<notin> set token
              \<and> ToLower scheme = ''bearer'')"
  shows "Authenticate a handler c r s =
           (Some (RequestError
              (errorString ''expected authorization header format: bearer <token>'') 401), s)"
  using assms unfolding bearer_header_iff
  by (auto simp: Authenticate_def Let_def NewRequestError_def StatusUnauthorized_def)

lemma canonical_authorization: "CanonicalMIMEHeaderKey ''authorization'' = ''Authorization''"
  by code_simp

lemma Header_Get_get_request:
  "Header_Get (get_request path auth) ''authorization'' = (case auth of [] \<Rightarrow> [] | v # vs \<Rightarrow> v)"
  by (simp add: Header_Get_def get_request_def canonical_authorization split: list.splits)

lemma Split_basic: "Split ''Basic dXNlcjpwdw=='' CHR '' '' = [''Basic'', ''dXNlcjpwdw=='']"
  by code_simp
lemma ToLower_basic: "ToLower ''Basic'' = ''basic''"
  by code_simp

theorem Authenticate_rejects_malformed_header_witness:
  "Authenticate one_token_auth (Test 1) background (get_request ''/v1/testauth'' []) idle =
     (Some (RequestError
        (errorString ''expected authorization header format: bearer <token>'') 401), idle)
   \<and> Authenticate one_token_auth (Test 1) background
        (get_request ''/v1/testauth'' [''Basic dXNlcjpwdw=='']) idle =
     (Some (RequestError
        (errorString ''expected authorization header format: bearer <token>'') 401), idle)"
proof -
  have 1: "\<not> (\<exists>scheme token.
      Header_Get (get_request ''/v1/testauth'' []) ''authorization'' = scheme @ '' '' @ token
      \<and> CHR '' '' \<notin> set scheme \<and> CHR '' '' \<notin> set token \<and> ToLower scheme = ''bearer'')"
    unfolding bearer_header_iff by (simp add: Header_Get_get_request)
  have 2: "\<not> (\<exists>scheme token.
      Header_Get (get_request ''/v1/testauth'' [''Basic dXNlcjpwdw=='']) ''authorization''
        = scheme @ '' '' @ token
      \<and> CHR '' '' \<notin> set scheme \<and> CHR '' '' \<notin> set token \<and> ToLower scheme = ''bearer'')"
    unfolding bearer_header_iff by (simp add: Header_Get_get_request Split_basic ToLower_basic)
  show ?thesis
    using Authenticate_rejects_malformed_header [OF 1]
      Authenticate_rejects_malformed_header [OF 2]
    by simp
qed


lemma Authenticate_bearer:
  assumes "Header_Get r ''authorization'' = scheme @ '' '' @ token"
    and "CHR '' '' \<notin> set scheme" and "CHR '' '' \<notin> set token"
    and "ToLower scheme = ''bearer''"
  shows "Authenticate a handler c r s =
           (case ValidateToken a token of
              Inl err \<Rightarrow> (Some (RequestError err 401), s)
            | Inr claims \<Rightarrow> handler (SetClaims c claims) r s)"
proof -
  have "Split (Header_Get r ''authorization'') CHR '' '' = [scheme, token]"
    using assms by (simp add: Split_first_sep Split_no_sep)
  with assms(4) show ?thesis
    by (simp add: Authenticate_def Let_def NewRequestError_def StatusUnauthorized_def
        split: sum.splits)
qed

text \<open>
  Claim C3. For a well-formed bearer header, \<^verbatim>\<open>Authenticate\<close> hands the token to the
  authenticator's \<^verbatim>\<open>ValidateToken\<close>. When that fails, with whatever error, the middleware
  returns a request error with status 401 around that error, the world untouched and the
  inner handler not invoked. When it succeeds, the inner handler is invoked with the
  context to which the claims are attached: they can be read back from it, and the rest
  of the context is as before.
\<close>

theorem Authenticate_validates_token:
  assumes "Header_Get r ''authorization'' = scheme @ '' '' @ token"
    and "CHR '' '' \<notin> set scheme" and "CHR '' '' \<notin> set token"
    and "ToLower scheme = ''bearer''"
  shows "(\<forall>err. ValidateToken a token = Inl err \<longrightarrow>
            Authenticate a handler c r s = (Some (RequestError err 401), s))
       \<and> (\<forall>claims. ValidateToken a token = Inr claims \<longrightarrow>
            Authenticate a handler c r s = handler (c\<lparr>claims_key := Some claims\<rparr>) r s
            \<and> GetClaims (c\<lparr>claims_key := Some claims\<rparr>) = Inr claims
            \<and> values_key (c\<lparr>claims_key := Some claims\<rparr>) = values_key c)"
  using Authenticate_bearer [OF assms, of a handler c s]
  by (simp add: SetClaims_def GetClaims_def)

lemma ToLower_Bearer: "ToLower ''Bearer'' = ''bearer''"
  by code_simp

theorem Authenticate_validates_token_witness:
  "Authenticate one_token_auth (Authorize [''ADMIN''] (Test 1)) background
       (get_request ''/v1/testauth'' [''Bearer expired-token'']) idle =
     (Some (RequestError (errorString ''token is invalid'') 401), idle)
   \<and> Authenticate one_token_auth (marker_handler ''H'') background
       (get_request ''/v1/testauth'' [''Bearer good-token'']) idle =
     marker_handler ''H'' (background\<lparr>claims_key := Some admin_claims\<rparr>)
       (get_request ''/v1/testauth'' [''Bearer good-token'']) idle
   \<and> GetClaims (background\<lparr>claims_key := Some admin_claims\<rparr>) = Inr admin_claims"
proof -
  have h1: "Header_Get (get_request ''/v1/testauth'' [''Bearer expired-token'']) ''authorization''
      = ''Bearer'' @ '' '' @ ''expired-token''"
    by (simp add: Header_Get_get_request)
  have h2: "Header_Get (get_request ''/v1/testauth'' [''Bearer good-token'']) ''authorization''
      = ''Bearer'' @ '' '' @ ''good-token''"
    by (simp add: Header_Get_get_request)
  have n1: "CHR '' '' \<notin> set ''Bearer''" by simp
  have n2: "CHR '' '' \<notin> set ''expired-token''" by simp
  have n3: "CHR '' '' \<notin> set ''good-token''" by simp
  have v1: "ValidateToken one_token_auth ''expired-token'' = Inl (errorString ''token is invalid'')"
    by (simp add: one_token_auth_def)
  have v2: "ValidateToken one_token_auth ''good-token'' = Inr admin_claims"
    by (simp add: one_token_auth_def)
  show ?thesis
    using Authenticate_validates_token [OF h1 n1 n2 ToLower_Bearer,
        of one_token_auth "Authorize [''ADMIN''] (Test 1)" background idle]
      Authenticate_validates_token [OF h2 n1 n3 ToLower_Bearer,
        of one_token_auth "marker_handler ''H''" background idle]
      v1 v2
    by simp
qed

section \<open>Authorization\<close>

text \<open>
  Claim C4. \<^verbatim>\<open>Authorize\<close>, configured with a list of roles: with no claims in the context
  it returns a request error with status 403 and does not invoke the inner handler; with
  claims that are not authorized for the roles it returns a request error with status
  403 and does not invoke the inner handler; otherwise it invokes the inner handler with
  the same context, request and world.
\<close>

theorem Authorize_checks_roles:
  "(claims_key c = None \<longrightarrow>
      Authorize roles handler c r s =
        (Some (RequestError
           (errorString ''you are not authorized for that action, no claims'') 403), s))
   \<and> (\<forall>claims. claims_key c = Some claims \<and> \<not> Authorized claims roles \<longrightarrow>
      Authorize roles handler c r s =
        (Some (RequestError
           (errorString (''you are not authorized for that action, claims[''
              @ fmt_v (Roles claims) @ ''] roles['' @ fmt_v roles @ '']'')) 403), s))
   \<and> (\<forall>claims. claims_key c = Some claims \<and> Authorized claims roles \<longrightarrow>
      Authorize roles handler c r s = handler c r s)"
  by (simp add: Authorize_def GetClaims_def NewRequestError_def StatusForbidden_def)

lemma Authorized_admin: "Authorized admin_claims [''ADMIN'']"
  by (simp add: Authorized_def admin_claims_def)

lemma not_Authorized_user: "\<not> Authorized admin_claims [''USER'']"
  by (simp add: Authorized_def admin_claims_def)

theorem Authorize_checks_roles_witness:
  "Authorize [''ADMIN''] (Test 1) background (get_request ''/v1/testauth'' []) idle =
     (Some (RequestError
        (errorString ''you are not authorized for that action, no claims'') 403), idle)
   \<and> Authorize [''USER''] (Test 1) (background\<lparr>claims_key := Some admin_claims\<rparr>)
       (get_request ''/v1/testauth'' []) idle =
     (Some (RequestError
        (errorString ''you are not authorized for that action, claims[[ADMIN]] roles[[USER]]'')
        403), idle)
   \<and> Authorize [''ADMIN''] (marker_handler ''H'') (background\<lparr>claims_key := Some admin_claims\<rparr>)
       (get_request ''/v1/testauth'' []) idle =
     marker_handler ''H'' (background\<lparr>claims_key := Some admin_claims\<rparr>)
       (get_request ''/v1/testauth'' []) idle"
proof -
  have k0: "claims_key background = None"
    by (simp add: background_def)
  have k1: "claims_key (background\<lparr>claims_key := Some admin_claims\<rparr>) = Some admin_claims"
    by simp
  have f: "fmt_v (Roles admin_claims) = ''[ADMIN]''" "fmt_v [''USER''] = ''[USER]''"
    by (simp_all add: fmt_v_def admin_claims_def)
  show ?thesis
    using Authorize_checks_roles [of background "[''ADMIN'']" "Test 1"
        "get_request ''/v1/testauth'' []" idle]
      Authorize_checks_roles [of "background\<lparr>claims_key := Some admin_claims\<rparr>" "[''USER'']"
        "Test 1" "get_request ''/v1/testauth'' []" idle]
      Authorize_checks_roles [of "background\<lparr>claims_key := Some admin_claims\<rparr>" "[''ADMIN'']"
        "marker_handler ''H''" "get_request ''/v1/testauth'' []" idle]
      k0 k1 f Authorized_admin not_Authorized_user
    by simp
qed


section \<open>The error middleware\<close>

lemma Respond_present:
  "values_key c = Some v \<Longrightarrow>
     Respond c d st s =
       (write_err s,
        s\<lparr>heap := (heap s)[v := (heap s ! v)\<lparr>StatusCode := st\<rparr>],
          written := written s @ [(st, d)]\<rparr>)"
  by (simp add: Respond_def GetValues_def Let_def)

lemma Errors_missing:
  "values_key c = None \<Longrightarrow>
     Errors handler c r s = (Some (shutdownError ''web value missing from context''), s)"
  by (simp add: Errors_def GetValues_def NewShutdownError_def)

lemma Errors_nil:
  "values_key c = Some v \<Longrightarrow> handler c r s = (None, s1) \<Longrightarrow>
     Errors handler c r s = (None, s1)"
  by (simp add: Errors_def GetValues_def)

lemma Errors_error:
  assumes "values_key c = Some v" and "handler c r s = (Some err, s1)"
  shows "Errors handler c r s =
    ((case write_err s1 of
        Some werr \<Rightarrow> Some werr
      | None \<Rightarrow> if IsShutdown err then Some err else None),
     s1\<lparr>logged := logged s1 @
            [(ErrorLevel, ''ERROR'',
              [(''traceid'', S (TraceID (heap s1 ! v))), (''ERROR'', E err)])],
        heap := (heap s1)[v := (heap s1 ! v)\<lparr>StatusCode := snd (error_response err)\<rparr>],
        written := written s1 @
            [(snd (error_response err), ErrorResponseData (fst (error_response err)))]\<rparr>)"
proof -
  obtain er st where er: "error_response err = (er, st)"
    by (cases "error_response err")
  have vk: "GetValues c = Inr v"
    using assms(1) by (simp add: GetValues_def)
  show ?thesis
    using assms er vk
    by (cases "write_err s1")
       (simp_all add: Errors_def Let_def Errorw_def Respond_present)
qed

lemma error_response_FieldErrors:
  "Cause err = FieldErrors fs \<Longrightarrow>
     error_response err =
       (\<lparr>Error = ''data validation error'', Fields = Error_string (FieldErrors fs)\<rparr>, 400)"
  by (simp add: error_response_def StatusBadRequest_def)

lemma error_response_RequestError:
  "Cause err = RequestError e st \<Longrightarrow>
     error_response err = (\<lparr>Error = Error_string e, Fields = []\<rparr>, st)"
  by (simp add: error_response_def)

lemma error_response_other:
  "\<forall>fs. Cause err \<noteq> FieldErrors fs \<Longrightarrow> \<forall>e st. Cause err \<noteq> RequestError e st \<Longrightarrow>
     error_response err = (\<lparr>Error = ''Internal Server Error'', Fields = []\<rparr>, 500)"
  by (cases "Cause err")
     (simp_all add: error_response_def StatusText_def StatusInternalServerError_def)

text \<open>
  Claim C5. When the inner handler returns an error (and the request-scoped values are
  in the context), \<^verbatim>\<open>Errors\<close> writes the response that matches the originating error: a
  field-validation error gives status 400 with the rendering of the field messages; a
  request error gives the status it carries and its message; every other error gives
  status 500 with the generic status text as the whole body, whatever the error says.
  The error itself goes to the log, with the trace identifier.
\<close>

theorem Errors_classifies:
  assumes "values_key c = Some v" and "handler c r s = (Some err, s1)"
  shows "(\<forall>fs. Cause err = FieldErrors fs \<longrightarrow>
            written (snd (Errors handler c r s)) = written s1 @
              [(400, ErrorResponseData
                  \<lparr>Error = ''data validation error'',
                   Fields = Error_string (FieldErrors fs)\<rparr>)])
       \<and> (\<forall>e status. Cause err = RequestError e status \<longrightarrow>
            written (snd (Errors handler c r s)) = written s1 @
              [(status, ErrorResponseData \<lparr>Error = Error_string e, Fields = []\<rparr>)])
       \<and> ((\<forall>fs. Cause err \<noteq> FieldErrors fs) \<and> (\<forall>e status. Cause err \<noteq> RequestError e status)
            \<longrightarrow> written (snd (Errors handler c r s)) = written s1 @
              [(500, ErrorResponseData \<lparr>Error = ''Internal Server Error'', Fields = []\<rparr>)])
       \<and> logged (snd (Errors handler c r s)) = logged s1 @
            [(ErrorLevel, ''ERROR'',
              [(''traceid'', S (TraceID (heap s1 ! v))), (''ERROR'', E err)])]"
  using assms Errors_error [of c v handler r s err s1]
  by (auto simp: error_response_FieldErrors error_response_RequestError error_response_other)


lemma serving_facts:
  "values_key serving_ctx = Some 0" "written serving = []" "logged serving = []"
  "write_err serving = None" "shutdown serving = []"
  "heap serving ! 0 = \<lparr>TraceID = ''trace-1'', Now = 1000, StatusCode = 0\<rparr>"
  by (simp_all add: serving_ctx_def serving_def idle_def)

lemma Test_even: "Test 0 c r s = (Some (errorString ''untrusted error''), s)"
  by (simp add: Test_def)

theorem Errors_classifies_witness:
  "written (snd (Errors (failing (FieldErrors [(''email'', ''required'')])) serving_ctx
       (get_request ''/v1/users'' []) serving)) =
     [(400, ErrorResponseData
        \<lparr>Error = ''data validation error'',
         Fields = ''[{\"field\":\"email\",\"error\":\"required\"}]''\<rparr>)]
   \<and> written (snd (Errors
       (failing (wrapError ''query: not allowed'' (RequestError (errorString ''not allowed'') 403)))
       serving_ctx (get_request ''/v1/users'' []) serving)) =
     [(403, ErrorResponseData \<lparr>Error = ''not allowed'', Fields = []\<rparr>)]
   \<and> written (snd (Errors (Test 0) serving_ctx (get_request ''/v1/test'' []) serving)) =
     [(500, ErrorResponseData \<lparr>Error = ''Internal Server Error'', Fields = []\<rparr>)]
   \<and> logged (snd (Errors (Test 0) serving_ctx (get_request ''/v1/test'' []) serving)) =
     [(ErrorLevel, ''ERROR'',
       [(''traceid'', S ''trace-1''), (''ERROR'', E (errorString ''untrusted error''))])]"
proof -
  let ?fe = "FieldErrors [(''email'', ''required'')]"
  let ?re = "wrapError ''query: not allowed'' (RequestError (errorString ''not allowed'') 403)"
  let ?ue = "errorString ''untrusted error''"
  have f1: "failing ?fe serving_ctx (get_request ''/v1/users'' []) serving = (Some ?fe, serving)"
    by (simp add: failing_def)
  have f2: "failing ?re serving_ctx (get_request ''/v1/users'' []) serving = (Some ?re, serving)"
    by (simp add: failing_def)
  have f3: "Test 0 serving_ctx (get_request ''/v1/test'' []) serving = (Some ?ue, serving)"
    by (rule Test_even)
  show ?thesis
    using Errors_classifies [of serving_ctx 0 "failing ?fe" "get_request ''/v1/users'' []"
        serving ?fe serving, OF serving_facts(1) f1]
      Errors_classifies [of serving_ctx 0 "failing ?re" "get_request ''/v1/users'' []"
        serving ?re serving, OF serving_facts(1) f2]
      Errors_classifies [of serving_ctx 0 "Test 0" "get_request ''/v1/test'' []"
        serving ?ue serving, OF serving_facts(1) f3]
    by (simp add: serving_facts)
qed


section \<open>Propagation of errors and shutdown\<close>

lemma Logger_missing:
  "values_key c = None \<Longrightarrow>
     Logger handler c r s = (Some (errorString ''web value missing from context''), s)"
  by (simp add: Logger_def GetValues_def)

lemma Logger_present:
  "values_key c = Some v \<Longrightarrow>
     Logger handler c r s =
       (let s1 = Infow ''request started''
                   [(''traceid'', S (TraceID (heap s ! v))), (''method'', S (Method r)),
                    (''path'', S (URL_Path r)), (''remoteaddr'', S (RemoteAddr r))] s;
            (err, s2) = handler c r s1;
            s3 = Infow ''request completed''
                   [(''traceid'', S (TraceID (heap s2 ! v))), (''method'', S (Method r)),
                    (''path'', S (URL_Path r)), (''remoteaddr'', S (RemoteAddr r)),
                    (''statuscode'', N (StatusCode (heap s2 ! v))),
                    (''since'', I (clock s2 - Now (heap s2 ! v)))] s2
        in (err, s3))"
  by (simp add: Logger_def GetValues_def)

lemma Logger_result:
  "values_key c = Some v \<Longrightarrow>
     fst (Logger handler c r s) =
       fst (handler c r (Infow ''request started''
              [(''traceid'', S (TraceID (heap s ! v))), (''method'', S (Method r)),
               (''path'', S (URL_Path r)), (''remoteaddr'', S (RemoteAddr r))] s))
   \<and> shutdown (snd (Logger handler c r s)) =
       shutdown (snd (handler c r (Infow ''request started''
              [(''traceid'', S (TraceID (heap s ! v))), (''method'', S (Method r)),
               (''path'', S (URL_Path r)), (''remoteaddr'', S (RemoteAddr r))] s)))"
  by (simp add: Logger_present Let_def Infow_def split: prod.splits)

lemma Errors_result:
  assumes "values_key c = Some v"
  shows "fst (Errors handler c r s) =
           (case fst (handler c r s) of
              None \<Rightarrow> None
            | Some err \<Rightarrow>
                (case write_err (snd (handler c r s)) of
                   Some werr \<Rightarrow> Some werr
                 | None \<Rightarrow> if IsShutdown err then Some err else None))
       \<and> shutdown (snd (Errors handler c r s)) = shutdown (snd (handler c r s))"
proof (cases "handler c r s")
  case (Pair e s1)
  show ?thesis
  proof (cases e)
    case None
    with Pair assms show ?thesis by (simp add: Errors_nil)
  next
    case (Some err)
    with Pair assms Errors_error [of c v handler r s err s1] show ?thesis by simp
  qed
qed

lemma Handle_h_shutdown:
  "shutdown (Handle_h handler r s) =
     (let c1 = (r_Context r)\<lparr>values_key := Some (length (heap s))\<rparr>;
          s1 = s\<lparr>heap := heap s @
                 [\<lparr>TraceID = span_TraceID (r_Context r), Now = clock s, StatusCode = 0\<rparr>]\<rparr>
      in shutdown (snd (handler c1 r s1)) @
           (case fst (handler c1 r s1) of None \<Rightarrow> [] | Some err \<Rightarrow> [SIGTERM]))"
  by (simp add: Handle_h_def Let_def SignalShutdown_def split: prod.splits option.splits)

text \<open>
  Claim C6, as amended. With the request-scoped values in the context, \<^verbatim>\<open>Errors\<close> returns
  nil when the inner handler returns nil. When the inner handler returns an error,
  \<^verbatim>\<open>Errors\<close> writes one error response and then returns: the error of the write when
  the write fails; otherwise the handler's error when it is a shutdown error, and nil
  when it is not. The base handler of \<^verbatim>\<open>App.Handle\<close> sends one signal on the shutdown
  channel exactly when the composed handler returns an error. So, with \<^verbatim>\<open>Logger\<close> and
  \<^verbatim>\<open>Errors\<close> as the outermost middleware, shutdown is signalled exactly when the chain
  inside them returns a shutdown error or an error whose response cannot be written.
\<close>

theorem Errors_propagation_and_shutdown:
  assumes "values_key c = Some v"
  shows "(\<forall>s1. handler c r s = (None, s1) \<longrightarrow> Errors handler c r s = (None, s1))
       \<and> (\<forall>err s1. handler c r s = (Some err, s1) \<longrightarrow>
            fst (Errors handler c r s) =
              (case write_err s1 of
                 Some werr \<Rightarrow> Some werr
               | None \<Rightarrow> if IsShutdown err then Some err else None)
            \<and> length (written (snd (Errors handler c r s))) = Suc (length (written s1)))
       \<and> shutdown (Handle_h handler r s) =
           (let c1 = (r_Context r)\<lparr>values_key := Some (length (heap s))\<rparr>;
                s1 = s\<lparr>heap := heap s @
                  [\<lparr>TraceID = span_TraceID (r_Context r), Now = clock s, StatusCode = 0\<rparr>]\<rparr>
            in shutdown (snd (handler c1 r s1)) @
                 (case fst (handler c1 r s1) of None \<Rightarrow> [] | Some err \<Rightarrow> [SIGTERM]))
       \<and> shutdown (Handle_h (wrapMiddleware (Logger # Errors # rest) handler) r s) =
           (let c1 = (r_Context r)\<lparr>values_key := Some (length (heap s))\<rparr>;
                s1 = Infow ''request started''
                   [(''traceid'', S (span_TraceID (r_Context r))), (''method'', S (Method r)),
                    (''path'', S (URL_Path r)), (''remoteaddr'', S (RemoteAddr r))]
                   (s\<lparr>heap := heap s @
                     [\<lparr>TraceID = span_TraceID (r_Context r), Now = clock s, StatusCode = 0\<rparr>]\<rparr>);
                (e, t) = wrapMiddleware rest handler c1 r s1
            in shutdown t @
                 (case e of
                    None \<Rightarrow> []
                  | Some err \<Rightarrow>
                      (case write_err t of
                         Some werr \<Rightarrow> [SIGTERM]
                       | None \<Rightarrow> if IsShutdown err then [SIGTERM] else [])))"
proof -
  have a: "\<forall>s1. handler c r s = (None, s1) \<longrightarrow> Errors handler c r s = (None, s1)"
    using assms by (simp add: Errors_nil)
  have b: "\<forall>err s1. handler c r s = (Some err, s1) \<longrightarrow>
            fst (Errors handler c r s) =
              (case write_err s1 of
                 Some werr \<Rightarrow> Some werr
               | None \<Rightarrow> if IsShutdown err then Some err else None)
            \<and> length (written (snd (Errors handler c r s))) = Suc (length (written s1))"
    using assms by (simp add: Errors_error [of c v handler r s])
  let ?c1 = "(r_Context r)\<lparr>values_key := Some (length (heap s))\<rparr>"
  let ?s0 = "s\<lparr>heap := heap s @
                  [\<lparr>TraceID = span_TraceID (r_Context r), Now = clock s, StatusCode = 0\<rparr>]\<rparr>"
  let ?s1 = "Infow ''request started''
                   [(''traceid'', S (span_TraceID (r_Context r))), (''method'', S (Method r)),
                    (''path'', S (URL_Path r)), (''remoteaddr'', S (RemoteAddr r))] ?s0"
  let ?inner = "wrapMiddleware rest handler"
  have vk: "values_key ?c1 = Some (length (heap s))" by simp
  have hp: "heap ?s0 ! length (heap s) =
      \<lparr>TraceID = span_TraceID (r_Context r), Now = clock s, StatusCode = 0\<rparr>" by simp
  have chain: "wrapMiddleware (Logger # Errors # rest) handler = Logger (Errors ?inner)"
    by (simp add: wrapMiddleware_Cons)
  have L: "fst (Logger (Errors ?inner) ?c1 r ?s0) = fst (Errors ?inner ?c1 r ?s1)
      \<and> shutdown (snd (Logger (Errors ?inner) ?c1 r ?s0)) = shutdown (snd (Errors ?inner ?c1 r ?s1))"
    using Logger_result [OF vk, of "Errors ?inner" r ?s0] hp by simp
  have E: "fst (Errors ?inner ?c1 r ?s1) =
           (case fst (?inner ?c1 r ?s1) of
              None \<Rightarrow> None
            | Some err \<Rightarrow>
                (case write_err (snd (?inner ?c1 r ?s1)) of
                   Some werr \<Rightarrow> Some werr
                 | None \<Rightarrow> if IsShutdown err then Some err else None))
       \<and> shutdown (snd (Errors ?inner ?c1 r ?s1)) = shutdown (snd (?inner ?c1 r ?s1))"
    using Errors_result [OF vk, of ?inner r ?s1] .
  obtain e t where it: "?inner ?c1 r ?s1 = (e, t)"
    by (cases "?inner ?c1 r ?s1")
  have H: "shutdown (Handle_h (Logger (Errors ?inner)) r s) =
      shutdown (snd (Logger (Errors ?inner) ?c1 r ?s0)) @
        (case fst (Logger (Errors ?inner) ?c1 r ?s0) of None \<Rightarrow> [] | Some err \<Rightarrow> [SIGTERM])"
    by (simp add: Handle_h_shutdown Let_def)
  have fstE: "fst (Errors ?inner ?c1 r ?s1) =
      (case e of
         None \<Rightarrow> None
       | Some err \<Rightarrow>
           (case write_err t of
              Some werr \<Rightarrow> Some werr
            | None \<Rightarrow> if IsShutdown err then Some err else None))"
    using E by (simp add: it split: option.splits)
  have sndE: "shutdown (snd (Errors ?inner ?c1 r ?s1)) = shutdown t"
    using E it by simp
  have sig: "shutdown (Handle_h (Logger (Errors ?inner)) r s) =
      shutdown t @
        (case e of
           None \<Rightarrow> []
         | Some err \<Rightarrow>
             (case write_err t of
                Some werr \<Rightarrow> [SIGTERM]
              | None \<Rightarrow> if IsShutdown err then [SIGTERM] else []))"
    unfolding H using L fstE sndE by (simp split: option.splits)
  have d: "shutdown (Handle_h (wrapMiddleware (Logger # Errors # rest) handler) r s) =
           (let c1 = ?c1; s1 = ?s1; (e, t) = wrapMiddleware rest handler c1 r s1
            in shutdown t @
                 (case e of
                    None \<Rightarrow> []
                  | Some err \<Rightarrow>
                      (case write_err t of
                         Some werr \<Rightarrow> [SIGTERM]
                       | None \<Rightarrow> if IsShutdown err then [SIGTERM] else [])))"
    unfolding chain sig Let_def it by simp
  show ?thesis
    using a b d Handle_h_shutdown [of handler r s] by (simp add: Let_def)
qed


theorem Errors_propagation_and_shutdown_witness:
  "Errors (Test 1) serving_ctx (get_request ''/v1/test'' []) serving =
     (None, serving\<lparr>heap := [\<lparr>TraceID = ''trace-1'', Now = 1000, StatusCode = 200\<rparr>],
                    written := [(200, StatusData ''OK'')]\<rparr>)
   \<and> fst (Errors (Test 0) serving_ctx (get_request ''/v1/test'' []) serving) = None
   \<and> length (written (snd (Errors (Test 0) serving_ctx (get_request ''/v1/test'' []) serving))) = 1
   \<and> fst (Errors (failing (shutdownError ''restart service'')) serving_ctx
         (get_request ''/v1/test'' []) serving) = Some (shutdownError ''restart service'')
   \<and> shutdown (Handle_h (wrapMiddleware [Logger, Errors] (Test 0))
         (get_request ''/v1/test'' []) idle) = []
   \<and> shutdown (Handle_h (wrapMiddleware [Logger, Errors] (failing (shutdownError ''restart service'')))
         (get_request ''/v1/test'' []) idle) = [SIGTERM]"
proof -
  let ?r = "get_request ''/v1/test'' []"
  let ?sd = "shutdownError ''restart service''"
  have t0: "\<And>c s. Test 0 c ?r s = (Some (errorString ''untrusted error''), s)"
    by (simp add: Test_def)
  have f0: "\<And>c s. failing ?sd c ?r s = (Some ?sd, s)"
    by (simp add: failing_def)
  have w: "wrapMiddleware [] (Test 0) = Test 0" "wrapMiddleware [] (failing ?sd) = failing ?sd"
    by (simp_all add: wrapMiddleware_Nil)
  have t1: "Test 1 serving_ctx ?r serving =
     (None, serving\<lparr>heap := [\<lparr>TraceID = ''trace-1'', Now = 1000, StatusCode = 200\<rparr>],
                    written := [(200, StatusData ''OK'')]\<rparr>)"
    by (simp add: Test_def Respond_present [OF serving_facts(1)] serving_def idle_def)
  have c1: "Errors (Test 1) serving_ctx ?r serving =
     (None, serving\<lparr>heap := [\<lparr>TraceID = ''trace-1'', Now = 1000, StatusCode = 200\<rparr>],
                    written := [(200, StatusData ''OK'')]\<rparr>)"
    using Errors_propagation_and_shutdown [of serving_ctx 0 "Test 1" ?r serving "[]",
        OF serving_facts(1)] t1
    by blast
  show ?thesis
    using c1
      Errors_propagation_and_shutdown [of serving_ctx 0 "Test 0" ?r serving "[]", OF serving_facts(1)]
      Errors_propagation_and_shutdown [of serving_ctx 0 "failing ?sd" ?r serving "[]", OF serving_facts(1)]
      Errors_propagation_and_shutdown [of serving_ctx 0 "Test 0" ?r idle "[]", OF serving_facts(1)]
      Errors_propagation_and_shutdown [of serving_ctx 0 "failing ?sd" ?r idle "[]", OF serving_facts(1)]
    by (simp add: t0 f0 w serving_facts Let_def Infow_def idle_def)
qed

text \<open>
  The claim C6 as stated fails: the error of \<^verbatim>\<open>Handlers.Test\<close> is not a shutdown error,
  and on a response writer whose writes fail \<^verbatim>\<open>Errors\<close> returns the write error, which
  reaches the base handler and signals shutdown.
\<close>

theorem untrusted_error_signals_shutdown:
  "\<not> IsShutdown (errorString ''untrusted error'')
   \<and> Test 0 serving_ctx (get_request ''/v1/test'' []) (serving\<lparr>write_err := Some broken_pipe\<rparr>) =
       (Some (errorString ''untrusted error''), serving\<lparr>write_err := Some broken_pipe\<rparr>)
   \<and> fst (Errors (Test 0) serving_ctx (get_request ''/v1/test'' [])
         (serving\<lparr>write_err := Some broken_pipe\<rparr>)) = Some broken_pipe
   \<and> shutdown (Handle_h (wrapMiddleware [Logger, Errors] (Test 0))
         (get_request ''/v1/test'' []) (idle\<lparr>write_err := Some broken_pipe\<rparr>)) = [SIGTERM]"
proof -
  let ?r = "get_request ''/v1/test'' []"
  let ?b = "serving\<lparr>write_err := Some broken_pipe\<rparr>"
  have t0: "\<And>c s. Test 0 c ?r s = (Some (errorString ''untrusted error''), s)"
    by (simp add: Test_def)
  have e: "fst (Errors (Test 0) serving_ctx ?r ?b) = Some broken_pipe"
    using Errors_error [of serving_ctx 0 "Test 0" ?r ?b "errorString ''untrusted error'' " ?b]
    by (simp add: t0 serving_facts)
  have vk: "values_key ((r_Context ?r)\<lparr>values_key := Some 0\<rparr>) = Some 0" by simp
  have h: "shutdown (Handle_h (wrapMiddleware [Logger, Errors] (Test 0)) ?r
             (idle\<lparr>write_err := Some broken_pipe\<rparr>)) = [SIGTERM]"
    using Logger_result [OF vk, of "Errors (Test 0)" ?r]
      Errors_result [OF vk, of "Test 0" ?r]
    by (simp add: Handle_h_shutdown wrapMiddleware_def Let_def t0 idle_def Infow_def)
  show ?thesis
    using e h t0 by simp
qed


lemma Handle_h_written:
  "written (Handle_h handler r s) =
     written (snd (handler ((r_Context r)\<lparr>values_key := Some (length (heap s))\<rparr>) r
       (s\<lparr>heap := heap s @
          [\<lparr>TraceID = span_TraceID (r_Context r), Now = clock s, StatusCode = 0\<rparr>]\<rparr>)))"
  by (simp add: Handle_h_def Let_def SignalShutdown_def split: prod.splits option.splits)

text \<open>
  Claim C7, as amended. With the request-scoped values in the context, when the inner
  handler returns an error \<^verbatim>\<open>Errors\<close> writes exactly one status and body after what the
  inner handler wrote, also for a shutdown error, and the world it returns together with
  the error already holds that response. With the values missing from the context,
  \<^verbatim>\<open>Errors\<close> and \<^verbatim>\<open>Logger\<close> return their error without invoking the inner handler
  and write nothing. The base handler of \<^verbatim>\<open>App.Handle\<close> writes nothing of its own.
\<close>

theorem Errors_writes_once:
  "(\<forall>v err s1. values_key c = Some v \<and> handler c r s = (Some err, s1) \<longrightarrow>
       written (snd (Errors handler c r s)) =
         written s1 @ [(snd (error_response err), ErrorResponseData (fst (error_response err)))]
       \<and> length (written (snd (Errors handler c r s))) = Suc (length (written s1)))
   \<and> (values_key c = None \<longrightarrow>
       Errors handler c r s = (Some (shutdownError ''web value missing from context''), s))
   \<and> (values_key c = None \<longrightarrow>
       Logger handler c r s = (Some (errorString ''web value missing from context''), s))
   \<and> written (Handle_h handler r s) =
       written (snd (handler ((r_Context r)\<lparr>values_key := Some (length (heap s))\<rparr>) r
         (s\<lparr>heap := heap s @
            [\<lparr>TraceID = span_TraceID (r_Context r), Now = clock s, StatusCode = 0\<rparr>]\<rparr>)))"
proof -
  have a: "\<forall>v err s1. values_key c = Some v \<and> handler c r s = (Some err, s1) \<longrightarrow>
       written (snd (Errors handler c r s)) =
         written s1 @ [(snd (error_response err), ErrorResponseData (fst (error_response err)))]
       \<and> length (written (snd (Errors handler c r s))) = Suc (length (written s1))"
  proof (intro allI impI)
    fix v err s1
    assume "values_key c = Some v \<and> handler c r s = (Some err, s1)"
    then show "written (snd (Errors handler c r s)) =
         written s1 @ [(snd (error_response err), ErrorResponseData (fst (error_response err)))]
       \<and> length (written (snd (Errors handler c r s))) = Suc (length (written s1))"
      using Errors_error [of c v handler r s err s1] by simp
  qed
  show ?thesis
    using a Errors_missing [of c handler r s] Logger_missing [of c handler r s]
      Handle_h_written [of handler r s]
    by simp
qed

theorem Errors_writes_once_witness:
  "written (snd (Errors (failing (shutdownError ''restart service'')) serving_ctx
       (get_request ''/v1/test'' []) serving)) =
     [(500, ErrorResponseData \<lparr>Error = ''Internal Server Error'', Fields = []\<rparr>)]
   \<and> fst (Errors (failing (shutdownError ''restart service'')) serving_ctx
       (get_request ''/v1/test'' []) serving) = Some (shutdownError ''restart service'')
   \<and> Errors (Test 0) background (get_request ''/v1/test'' []) idle =
       (Some (shutdownError ''web value missing from context''), idle)
   \<and> Logger (Test 0) background (get_request ''/v1/test'' []) idle =
       (Some (errorString ''web value missing from context''), idle)"
proof -
  let ?r = "get_request ''/v1/test'' []"
  let ?sd = "shutdownError ''restart service''"
  have f0: "failing ?sd serving_ctx ?r serving = (Some ?sd, serving)"
    by (simp add: failing_def)
  have er: "error_response ?sd = (\<lparr>Error = ''Internal Server Error'', Fields = []\<rparr>, 500)"
    by (simp add: error_response_other)
  have k0: "values_key background = None"
    by (simp add: background_def)
  have fe: "fst (Errors (failing ?sd) serving_ctx ?r serving) = Some ?sd"
    using Errors_error [of serving_ctx 0 "failing ?sd" ?r serving ?sd serving]
    by (simp add: f0 serving_facts)
  show ?thesis
    using Errors_writes_once [of serving_ctx "failing ?sd" ?r serving]
      Errors_writes_once [of background "Test 0" ?r idle]
      f0 er k0 fe
    by (simp add: serving_facts)
qed

text \<open>
  The claim C7 as stated fails where the values are missing from the context: for a
  handler that returns an error on this request, \<^verbatim>\<open>Errors\<close> returns the shutdown error
  and no response has been written.
\<close>

theorem no_response_without_values:
  "fst (Test 0 background (get_request ''/v1/test'' []) idle) = Some (errorString ''untrusted error'')
   \<and> written (snd (Errors (Test 0) background (get_request ''/v1/test'' []) idle)) = []
   \<and> fst (Errors (Test 0) background (get_request ''/v1/test'' []) idle) =
       Some (shutdownError ''web value missing from context'')"
  by (simp add: Errors_missing Test_even background_def idle_def)

section \<open>The values stored by the base handler\<close>

text \<open>
  Claim C10. The closure that \<^verbatim>\<open>App.Handle\<close> registers stores a \<^verbatim>\<open>Values\<close> object with
  the trace identifier of the span and the current time, puts its address in the context
  and only then calls the composed handler with that context. In that context
  \<^verbatim>\<open>GetValues\<close> succeeds, so \<^verbatim>\<open>Logger\<close>, \<^verbatim>\<open>Errors\<close> and \<^verbatim>\<open>Respond\<close> run as written
  after their check, in whatever world and around whatever inner handler: the branch for
  missing values is not taken. \<^verbatim>\<open>Logger\<close> hands the same context to \<^verbatim>\<open>Errors\<close>, which
  is next in the application's middleware.
\<close>

theorem Handle_stores_values:
  "(let v = length (heap s);
        c1 = (r_Context r)\<lparr>values_key := Some v\<rparr>;
        s1 = s\<lparr>heap := heap s @
               [\<lparr>TraceID = span_TraceID (r_Context r), Now = clock s, StatusCode = 0\<rparr>]\<rparr>
    in Handle_h handler r s =
         (case handler c1 r s1 of (Some err, s2) \<Rightarrow> SignalShutdown s2 | (None, s2) \<Rightarrow> s2)
       \<and> GetValues c1 = Inr v
       \<and> heap s1 ! v = \<lparr>TraceID = span_TraceID (r_Context r), Now = clock s, StatusCode = 0\<rparr>
       \<and> (\<forall>inner t. Logger inner c1 r t =
            (let t1 = Infow ''request started''
                        [(''traceid'', S (TraceID (heap t ! v))), (''method'', S (Method r)),
                         (''path'', S (URL_Path r)), (''remoteaddr'', S (RemoteAddr r))] t;
                 (err, t2) = inner c1 r t1;
                 t3 = Infow ''request completed''
                        [(''traceid'', S (TraceID (heap t2 ! v))), (''method'', S (Method r)),
                         (''path'', S (URL_Path r)), (''remoteaddr'', S (RemoteAddr r)),
                         (''statuscode'', N (StatusCode (heap t2 ! v))),
                         (''since'', I (clock t2 - Now (heap t2 ! v)))] t2
             in (err, t3)))
       \<and> (\<forall>inner t. Errors inner c1 r t =
            (case inner c1 r t of
               (None, t1) \<Rightarrow> (None, t1)
             | (Some err, t1) \<Rightarrow>
                 (let t2 = Errorw ''ERROR''
                             [(''traceid'', S (TraceID (heap t1 ! v))), (''ERROR'', E err)] t1;
                      (er, status) = error_response err
                  in case Respond c1 (ErrorResponseData er) status t2 of
                       (Some werr, t3) \<Rightarrow> (Some werr, t3)
                     | (None, t3) \<Rightarrow>
                         if IsShutdown err then (Some err, t3) else (None, t3))))
       \<and> (\<forall>d st t. Respond c1 d st t =
            (write_err t,
             t\<lparr>heap := (heap t)[v := (heap t ! v)\<lparr>StatusCode := st\<rparr>],
               written := written t @ [(st, d)]\<rparr>)))
   \<and> mux (Handle a method grp path h ms) =
       mux a @ [(method, (if grp = [] then path else ''/'' @ grp @ path),
                 Handle_h (wrapMiddleware (mw a @ ms) h))]
   \<and> wrapMiddleware ((Logger # Errors # rest) @ ms) h =
       Logger (Errors (wrapMiddleware (rest @ ms) h))"
proof -
  have reg: "mux (Handle a method grp path h ms) =
     mux a @ [(method, (if grp = [] then path else ''/'' @ grp @ path),
               Handle_h (wrapMiddleware (mw a @ ms) h))]"
    by (simp add: Handle_def Let_def wrapMiddleware_append)
  have chain: "wrapMiddleware ((Logger # Errors # rest) @ ms) h =
       Logger (Errors (wrapMiddleware (rest @ ms) h))"
    by (simp add: wrapMiddleware_def)
  let ?v = "length (heap s)"
  let ?c1 = "(r_Context r)\<lparr>values_key := Some ?v\<rparr>"
  have vk: "values_key ?c1 = Some ?v" by simp
  have H: "Handle_h handler r s =
      (case handler ?c1 r (s\<lparr>heap := heap s @
               [\<lparr>TraceID = span_TraceID (r_Context r), Now = clock s, StatusCode = 0\<rparr>]\<rparr>) of
         (Some err, s2) \<Rightarrow> SignalShutdown s2 | (None, s2) \<Rightarrow> s2)"
    by (simp add: Handle_h_def Let_def)
  have G: "GetValues ?c1 = Inr ?v"
    by (simp add: GetValues_def)
  have L: "\<forall>inner t. Logger inner ?c1 r t =
            (let t1 = Infow ''request started''
                        [(''traceid'', S (TraceID (heap t ! ?v))), (''method'', S (Method r)),
                         (''path'', S (URL_Path r)), (''remoteaddr'', S (RemoteAddr r))] t;
                 (err, t2) = inner ?c1 r t1;
                 t3 = Infow ''request completed''
                        [(''traceid'', S (TraceID (heap t2 ! ?v))), (''method'', S (Method r)),
                         (''path'', S (URL_Path r)), (''remoteaddr'', S (RemoteAddr r)),
                         (''statuscode'', N (StatusCode (heap t2 ! ?v))),
                         (''since'', I (clock t2 - Now (heap t2 ! ?v)))] t2
             in (err, t3))"
    using Logger_present [OF vk] by blast
  have E: "\<forall>inner t. Errors inner ?c1 r t =
            (case inner ?c1 r t of
               (None, t1) \<Rightarrow> (None, t1)
             | (Some err, t1) \<Rightarrow>
                 (let t2 = Errorw ''ERROR''
                             [(''traceid'', S (TraceID (heap t1 ! ?v))), (''ERROR'', E err)] t1;
                      (er, status) = error_response err
                  in case Respond ?c1 (ErrorResponseData er) status t2 of
                       (Some werr, t3) \<Rightarrow> (Some werr, t3)
                     | (None, t3) \<Rightarrow>
                         if IsShutdown err then (Some err, t3) else (None, t3)))"
    by (simp add: Errors_def G)
  have R: "\<forall>d st t. Respond ?c1 d st t =
            (write_err t,
             t\<lparr>heap := (heap t)[?v := (heap t ! ?v)\<lparr>StatusCode := st\<rparr>],
               written := written t @ [(st, d)]\<rparr>)"
    using Respond_present [OF vk] by blast
  have P: "heap (s\<lparr>heap := heap s @
               [\<lparr>TraceID = span_TraceID (r_Context r), Now = clock s, StatusCode = 0\<rparr>]\<rparr>) ! ?v
           = \<lparr>TraceID = span_TraceID (r_Context r), Now = clock s, StatusCode = 0\<rparr>"
    by simp
  show ?thesis
    unfolding Let_def
    using reg chain H G L [unfolded Let_def] E [unfolded Let_def] R P
    by (intro conjI) assumption+
qed


section \<open>Round trip of the token codec\<close>

lemma verify_sign: "verify (Public k) input (sign k input)"
  by (cases k) simp

text \<open>What the decoder refuses: a token that has expired, and a key-ID it cannot resolve.\<close>

lemma decode_expired:
  "structurally_valid c \<Longrightarrow> keyLookup keyID = Some (Public k) \<Longrightarrow> ExpiresAt c < now \<Longrightarrow>
     encode c k keyID = Inr t \<Longrightarrow> decode now t keyLookup = Inl ExpiredTokenError"
  by (auto simp: encode_def decode_def allowed_algorithms_def verify_sign)

lemma decode_unknown_key:
  "keyLookup keyID = None \<Longrightarrow> encode c k keyID = Inr t \<Longrightarrow>
     decode now t keyLookup = Inl UnknownKeyError"
  by (auto simp: encode_def decode_def allowed_algorithms_def split: if_splits)

text \<open>
  Claim C9. For structurally valid claims that expire after the current time, encoding
  them with a private key under a key-ID succeeds, and decoding the token with a key
  lookup that maps the key-ID to the matching public key returns the same claims.
\<close>

theorem token_round_trip:
  assumes "structurally_valid c" and "now < ExpiresAt c"
    and "keyLookup keyID = Some (Public privateKey)"
  shows "\<exists>t. encode c privateKey keyID = Inr t \<and> decode now t keyLookup = Inr c"
  using assms
  by (simp add: encode_def decode_def allowed_algorithms_def verify_sign)

theorem token_round_trip_witness:
  "encode admin_claims (PrivateKey 1) active_kid =
     Inr \<lparr>alg = ''RS256'', kid = active_kid, payload = admin_claims,
          trailer = Signature 1 (''RS256'', active_kid, admin_claims)\<rparr>
   \<and> decode 1000
       \<lparr>alg = ''RS256'', kid = active_kid, payload = admin_claims,
        trailer = Signature 1 (''RS256'', active_kid, admin_claims)\<rparr>
       test_keys = Inr admin_claims"
proof -
  have v: "structurally_valid admin_claims"
    by (simp add: structurally_valid_def admin_claims_def)
  have e: "1000 < ExpiresAt admin_claims"
    by (simp add: admin_claims_def)
  have k: "test_keys active_kid = Some (Public (PrivateKey 1))"
    by (simp add: test_keys_def)
  have enc: "encode admin_claims (PrivateKey 1) active_kid =
     Inr \<lparr>alg = ''RS256'', kid = active_kid, payload = admin_claims,
          trailer = Signature 1 (''RS256'', active_kid, admin_claims)\<rparr>"
    using v by (simp add: encode_def)
  show ?thesis
    using token_round_trip [of admin_claims 1000 test_keys active_kid "PrivateKey 1"] v e k enc
    by simp
qed


end
